theory Spec2Isabelle
  imports Main "HOL-Library.Sublist"
begin

section \<open>JavaScript values, errors and configuration objects\<close>

text \<open>
  The library in \<^verbatim>\<open>src/fs.js\<close> is untyped JavaScript.  Values that travel through
  configuration objects are modelled by \<open>jsval\<close>; a configuration object is the list
  of its own enumerable entries in insertion order.
\<close>

datatype jsval =
    JUndefined
  | JNull
  | JBool bool
  | JNum int
  | JStr string
  | JArr "jsval list"
  | JObj "(string \<times> jsval) list"

type_synonym object = "(string \<times> jsval) list"

datatype errno = ENOENT | ENOTDIR | EISDIR | EEXIST

text \<open>
  Error objects: a system error carries its code and the path of the failed call,
  the other two are the JavaScript exceptions the library can meet.
\<close>

datatype js_error =
    SystemError errno string
  | TypeError string
  | SyntaxError string

text \<open>
  \<^verbatim>\<open>propOr(d, k, obj)\<close> of ramda: the property when it is present and neither
  \<^verbatim>\<open>null\<close> nor \<^verbatim>\<open>undefined\<close>, the default otherwise.
\<close>

definition propOr :: "jsval \<Rightarrow> string \<Rightarrow> object \<Rightarrow> jsval" where
  "propOr d k obj =
     (case map_of obj k of
        None \<Rightarrow> d
      | Some v \<Rightarrow> (if v = JNull \<or> v = JUndefined then d else v))"

text \<open>
  \<^verbatim>\<open>without(xs, list)\<close> of ramda is \<^verbatim>\<open>reject(x => xs.includes(x), list)\<close>, and
  ramda's \<^verbatim>\<open>reject\<close> and \<^verbatim>\<open>filter\<close>, given a plain object instead of an array, keep
  or drop each entry by testing its \<^emph>\<open>value\<close>.  \<^verbatim>\<open>removeFilesWithConfigAndCancel\<close>
  calls \<^verbatim>\<open>without\<close> with the configuration object, so that is the case modelled.
\<close>

definition without :: "jsval list \<Rightarrow> object \<Rightarrow> object" where
  "without xs obj = filter (\<lambda>(k, v). v \<notin> set xs) obj"

text \<open>\<^verbatim>\<open>omit(keys, obj)\<close> of ramda, the function that drops entries by key.\<close>

definition omit :: "string list \<Rightarrow> object \<Rightarrow> object" where
  "omit ks obj = filter (\<lambda>(k, v). k \<notin> set ks) obj"


section \<open>Strings\<close>

text \<open>
  \<^verbatim>\<open>lastIndexOf\<close> and \<^verbatim>\<open>slice\<close> of JavaScript count in the code units of a string.
  A string of the model is the list of its units, each an 8-bit character, so the
  model covers the strings whose units are all below 256, ASCII names among them.
\<close>

text \<open>\<^verbatim>\<open>s.lastIndexOf(c)\<close> for a one-character search string: \<open>-1\<close> when absent.\<close>

fun last_index_from :: "char \<Rightarrow> string \<Rightarrow> nat \<Rightarrow> int \<Rightarrow> int" where
  "last_index_from c [] i found = found"
| "last_index_from c (x # xs) i found =
     last_index_from c xs (Suc i) (if x = c then int i else found)"

definition lastIndexOf :: "string \<Rightarrow> char \<Rightarrow> int" where
  "lastIndexOf s c = last_index_from c s 0 (- 1)"

text \<open>
  \<^verbatim>\<open>s.slice(b, e)\<close>: a negative index counts from the end, both indices are clamped
  to the string.
\<close>

definition slice :: "string \<Rightarrow> int \<Rightarrow> int \<Rightarrow> string" where
  "slice s b e =
     (let n = int (length s);
          from = (if b < 0 then max (n + b) 0 else min b n);
          to = (if e < 0 then max (n + e) 0 else min e n)
      in take (nat (to - from)) (drop (nat from) s))"

definition directoryOnly :: "string \<Rightarrow> string" where
  "directoryOnly filePath = slice filePath 0 (lastIndexOf filePath CHR ''/'')"

text \<open>The platform separator of \<^verbatim>\<open>node:path\<close> is a parameter of \<open>localize\<close>.\<close>

definition localize :: "string \<Rightarrow> string \<Rightarrow> string" where
  "localize sep z = ''.'' @ sep @ z"


section \<open>The file system and the runtime\<close>

text \<open>
  The platform calls (\<^verbatim>\<open>fs.readFile\<close>, \<^verbatim>\<open>fs.writeFile\<close>, \<^verbatim>\<open>fs.rm\<close>, \<^verbatim>\<open>fs.mkdir\<close>,
  \<^verbatim>\<open>fs.access\<close>), \<^verbatim>\<open>JSON.parse\<close> and the glob matcher are external to the
  repository.  They are modelled by a small POSIX-like file system: a map from
  locations (the list of path components from the root) to what is there, a
  directory or a file with its contents.  There are no symbolic links and no
  permissions.  A text is identified with its UTF-8 bytes; other encodings, the JSON
  parser, the glob package and the time each call on a path takes are fields of the
  runtime, so every theorem holds for all of them.
\<close>

datatype node = Dir | File string

text \<open>
  What a call \<^verbatim>\<open>glob(g, conf)\<close> of the glob package does: it throws, or it returns a
  promise that is rejected or fulfilled with the matching paths.
\<close>

datatype glob_call = GlobThrows js_error | GlobPromise "js_error + string list"

record world =
  nodes :: "string list \<rightharpoonup> node"
  cwd :: "string list"
  latency :: "string \<Rightarrow> nat"
  transcode :: "string \<Rightarrow> string \<Rightarrow> string"
  json_parse :: "jsval \<Rightarrow> js_error + jsval"
  glob_package :: "string \<Rightarrow> object \<Rightarrow> glob_call"

fun split_on :: "char \<Rightarrow> string \<Rightarrow> string list" where
  "split_on c [] = [[]]"
| "split_on c (x # xs) =
     (if x = c then [] # split_on c xs
      else (case split_on c xs of
              [] \<Rightarrow> [[x]]
            | s # ss \<Rightarrow> (x # s) # ss))"

text \<open>
  Path resolution walks the components from the starting directory; every directory
  that is stepped through must exist.  The result is the location the path names,
  which may itself be absent.
\<close>

fun walk :: "world \<Rightarrow> string list \<Rightarrow> string list \<Rightarrow> errno + string list" where
  "walk w cur [] = Inr cur"
| "walk w cur (c # cs) =
     (case nodes w cur of
        Some Dir \<Rightarrow>
          (if c = [] \<or> c = ''.'' then walk w cur cs
           else if c = ''..'' then walk w (butlast cur) cs
           else walk w (cur @ [c]) cs)
      | Some (File content) \<Rightarrow> Inl ENOTDIR
      | None \<Rightarrow> Inl ENOENT)"

definition start_dir :: "world \<Rightarrow> string \<Rightarrow> string list" where
  "start_dir w p = (if p \<noteq> [] \<and> hd p = CHR ''/'' then [] else cwd w)"

definition locate :: "world \<Rightarrow> string \<Rightarrow> errno + string list" where
  "locate w p =
     (if p = [] then Inl ENOENT
      else walk w (start_dir w p) (split_on CHR ''/'' p))"

definition truthy :: "object \<Rightarrow> string \<Rightarrow> bool" where
  "truthy conf k = (map_of conf k = Some (JBool True))"

definition fs_access :: "world \<Rightarrow> string \<Rightarrow> errno option" where
  "fs_access w p =
     (case locate w p of
        Inl e \<Rightarrow> Some e
      | Inr l \<Rightarrow> (case nodes w l of None \<Rightarrow> Some ENOENT | Some n \<Rightarrow> None))"

definition decode :: "world \<Rightarrow> string \<Rightarrow> string \<Rightarrow> string" where
  "decode w format bytes = (if format = ''utf8'' then bytes else transcode w format bytes)"

definition fs_readFile :: "world \<Rightarrow> string \<Rightarrow> string \<Rightarrow> errno + string" where
  "fs_readFile w p format =
     (case locate w p of
        Inl e \<Rightarrow> Inl e
      | Inr l \<Rightarrow>
          (case nodes w l of
             Some (File bytes) \<Rightarrow> Inr (decode w format bytes)
           | Some Dir \<Rightarrow> Inl EISDIR
           | None \<Rightarrow> Inl ENOENT))"

text \<open>
  \<^verbatim>\<open>fs.writeFile\<close> reads two options of its configuration: \<^verbatim>\<open>encoding\<close> (UTF-8 when
  absent) and \<^verbatim>\<open>flag\<close> (\<^verbatim>\<open>'a'\<close> appends, every other flag replaces the contents).
\<close>

definition encoded :: "world \<Rightarrow> object \<Rightarrow> string \<Rightarrow> string" where
  "encoded w conf content =
     (case map_of conf ''encoding'' of
        Some (JStr enc) \<Rightarrow> (if enc = ''utf8'' then content else transcode w enc content)
      | _ \<Rightarrow> content)"

definition fs_writeFile :: "world \<Rightarrow> string \<Rightarrow> string \<Rightarrow> object \<Rightarrow> errno + world" where
  "fs_writeFile w p content conf =
     (case locate w p of
        Inl e \<Rightarrow> Inl e
      | Inr l \<Rightarrow>
          (case nodes w l of
             Some Dir \<Rightarrow> Inl EISDIR
           | Some (File old) \<Rightarrow>
               Inr (w\<lparr>nodes := (nodes w)(l \<mapsto> File
                 (if map_of conf ''flag'' = Some (JStr ''a'')
                  then old @ encoded w conf content else encoded w conf content))\<rparr>)
           | None \<Rightarrow> Inr (w\<lparr>nodes := (nodes w)(l \<mapsto> File (encoded w conf content))\<rparr>)))"

text \<open>Recursive creation makes every missing directory on the way.\<close>

fun mkdirs :: "world \<Rightarrow> string list \<Rightarrow> string list \<Rightarrow> errno + world" where
  "mkdirs w cur [] = Inr w"
| "mkdirs w cur (c # cs) =
     (case nodes w cur of
        Some Dir \<Rightarrow>
          (if c = [] \<or> c = ''.'' then mkdirs w cur cs
           else if c = ''..'' then mkdirs w (butlast cur) cs
           else (case nodes w (cur @ [c]) of
                   Some (File content) \<Rightarrow> Inl (if cs = [] then EEXIST else ENOTDIR)
                 | Some Dir \<Rightarrow> mkdirs w (cur @ [c]) cs
                 | None \<Rightarrow> mkdirs (w\<lparr>nodes := (nodes w)(cur @ [c] \<mapsto> Dir)\<rparr>) (cur @ [c]) cs))
      | Some (File content) \<Rightarrow> Inl ENOTDIR
      | None \<Rightarrow> Inl ENOENT)"

definition strip_trailing :: "string list \<Rightarrow> string list" where
  "strip_trailing cs = rev (dropWhile (\<lambda>c. c = []) (rev cs))"

definition fs_mkdir :: "world \<Rightarrow> string \<Rightarrow> object \<Rightarrow> errno + world" where
  "fs_mkdir w p conf =
     (if p = [] then Inl ENOENT
      else if truthy conf ''recursive''
      then mkdirs w (start_dir w p) (split_on CHR ''/'' p)
      else (case walk w (start_dir w p) (strip_trailing (split_on CHR ''/'' p)) of
              Inl e \<Rightarrow> Inl e
            | Inr l \<Rightarrow>
                (case nodes w l of
                   Some n \<Rightarrow> Inl EEXIST
                 | None \<Rightarrow> Inr (w\<lparr>nodes := (nodes w)(l \<mapsto> Dir)\<rparr>))))"

text \<open>
  \<^verbatim>\<open>fs.rm\<close> reads \<^verbatim>\<open>force\<close> (a missing path is not an error) and \<^verbatim>\<open>recursive\<close>
  (a directory is removed with everything below it); other keys are ignored.
\<close>

definition fs_rm :: "world \<Rightarrow> string \<Rightarrow> object \<Rightarrow> errno + world" where
  "fs_rm w p options =
     (case locate w p of
        Inl e \<Rightarrow> (if e = ENOENT \<and> truthy options ''force'' then Inr w else Inl e)
      | Inr l \<Rightarrow>
          (case nodes w l of
             Some (File content) \<Rightarrow> Inr (w\<lparr>nodes := (nodes w)(l := None)\<rparr>)
           | Some Dir \<Rightarrow>
               (if truthy options ''recursive''
                then Inr (w\<lparr>nodes := (\<lambda>k. if prefix l k then None else nodes w k)\<rparr>)
                else Inl EISDIR)
           | None \<Rightarrow> (if truthy options ''force'' then Inr w else Inl ENOENT)))"

text \<open>
  \<^verbatim>\<open>glob(g, conf)\<close>: the source imports \<^verbatim>\<open>glob\<close> from the package of that name and
  calls it with the pattern and the configuration, and with no callback.  The
  package is not part of the repository, so the call is answered by the runtime;
  the library hands it the caller's configuration as it is.
\<close>

definition glob :: "world \<Rightarrow> string \<Rightarrow> object \<Rightarrow> glob_call" where
  "glob w g conf = glob_package w g conf"


section \<open>Deferred computations\<close>

text \<open>
  A Future of fluture is a computation that does nothing until it is forked.  Forked
  in a world it settles in exactly one of three ways: it resolves, it rejects, or an
  exception escapes from a function it runs and the fork crashes (fluture does not
  turn exceptions into rejections).  The model is the function from the world at the
  fork to the way it settles, the time it takes, and the world it leaves.
  Cancellation functions are carried as arguments, as in the source, and have no
  effect in the model: nothing in it abandons a computation that is still wanted.
\<close>

datatype ('e, 'a) outcome = Crashed js_error | Rejected 'e | Resolved 'a

type_synonym ('e, 'a) future = "world \<Rightarrow> ('e, 'a) outcome \<times> nat \<times> world"

text \<open>
  A cancellation function: the library's own \<^verbatim>\<open>NO_OP\<close>, or one the caller supplies
  (told apart by a number).
\<close>

datatype cancel = NO_OP | Hook nat

definition fork :: "('e, 'a) future \<Rightarrow> world \<Rightarrow> ('e, 'a) outcome \<times> nat \<times> world" where
  "fork m w = m w"

definition settled :: "('e, 'a) future \<Rightarrow> world \<Rightarrow> ('e, 'a) outcome" where
  "settled m w = fst (m w)"

definition world_after :: "('e, 'a) future \<Rightarrow> world \<Rightarrow> world" where
  "world_after m w = snd (snd (m w))"

definition elapsed :: "('e, 'a) future \<Rightarrow> world \<Rightarrow> nat" where
  "elapsed m w = fst (snd (m w))"

text \<open>
  The combinators of fluture (spec 4.1).  A function handed to \<open>map\<close> or \<open>mapRej\<close>
  is a JavaScript function and may throw: it returns \<open>Inl\<close> of the exception then.
\<close>

definition map_future :: "('a \<Rightarrow> js_error + 'b) \<Rightarrow> ('e, 'a) future \<Rightarrow> ('e, 'b) future" where
  "map_future f m = (\<lambda>w.
     case m w of
       (Resolved a, t, w') \<Rightarrow>
         (case f a of Inl x \<Rightarrow> (Crashed x, t, w') | Inr b \<Rightarrow> (Resolved b, t, w'))
     | (Rejected e, t, w') \<Rightarrow> (Rejected e, t, w')
     | (Crashed x, t, w') \<Rightarrow> (Crashed x, t, w'))"

definition mapRej :: "('e \<Rightarrow> js_error + 'f) \<Rightarrow> ('e, 'a) future \<Rightarrow> ('f, 'a) future" where
  "mapRej f m = (\<lambda>w.
     case m w of
       (Resolved a, t, w') \<Rightarrow> (Resolved a, t, w')
     | (Rejected e, t, w') \<Rightarrow>
         (case f e of Inl x \<Rightarrow> (Crashed x, t, w') | Inr e' \<Rightarrow> (Rejected e', t, w'))
     | (Crashed x, t, w') \<Rightarrow> (Crashed x, t, w'))"

definition chain :: "('a \<Rightarrow> ('e, 'b) future) \<Rightarrow> ('e, 'a) future \<Rightarrow> ('e, 'b) future" where
  "chain f m = (\<lambda>w.
     case m w of
       (Resolved a, t, w') \<Rightarrow> (case f a w' of (r, t', w'') \<Rightarrow> (r, t + t', w''))
     | (Rejected e, t, w') \<Rightarrow> (Rejected e, t, w')
     | (Crashed x, t, w') \<Rightarrow> (Crashed x, t, w'))"

definition chainRej :: "('e \<Rightarrow> ('f, 'a) future) \<Rightarrow> ('e, 'a) future \<Rightarrow> ('f, 'a) future" where
  "chainRej f m = (\<lambda>w.
     case m w of
       (Resolved a, t, w') \<Rightarrow> (Resolved a, t, w')
     | (Rejected e, t, w') \<Rightarrow> (case f e w' of (r, t', w'') \<Rightarrow> (r, t + t', w''))
     | (Crashed x, t, w') \<Rightarrow> (Crashed x, t, w'))"

text \<open>
  \<open>race\<close>: both computations are forked together and the first to settle, resolved
  or rejected, settles the race (spec 4.1); the other one is cancelled.  On a tie
  the left one, forked first, wins.  The world left is the winner's: what a
  cancelled computation still does to the file system is outside the model (the
  probes the library races only read).
\<close>

definition race :: "('e, 'a) future \<Rightarrow> ('e, 'a) future \<Rightarrow> ('e, 'a) future" where
  "race a b = (\<lambda>w.
     case a w of (ra, ta, wa) \<Rightarrow>
       (case b w of (rb, tb, wb) \<Rightarrow>
          (if ta \<le> tb then (ra, ta, wa) else (rb, tb, wb))))"

text \<open>ramda's \<^verbatim>\<open>F\<close>: the function that always returns \<^verbatim>\<open>false\<close>.\<close>

definition F :: "'x \<Rightarrow> js_error + bool" where
  "F x = Inr False"


section \<open>The wrappers of \<^verbatim>\<open>src/fs.js\<close>\<close>

definition readFileWithFormatAndCancel ::
  "cancel \<Rightarrow> string \<Rightarrow> string \<Rightarrow> (js_error, jsval) future" where
  "readFileWithFormatAndCancel cancel format x = (\<lambda>w.
     case fs_readFile w x format of
       Inl err \<Rightarrow> (Rejected (SystemError err x), latency w x, w)
     | Inr content \<Rightarrow> (Resolved (JStr content), latency w x, w))"

definition readFileWithCancel :: "cancel \<Rightarrow> string \<Rightarrow> (js_error, jsval) future" where
  "readFileWithCancel cancel = readFileWithFormatAndCancel cancel ''utf8''"

definition readFile :: "string \<Rightarrow> (js_error, jsval) future" where
  "readFile = readFileWithCancel NO_OP"

definition readJSONFileWithCancel :: "cancel \<Rightarrow> string \<Rightarrow> (js_error, jsval) future" where
  "readJSONFileWithCancel cancel x =
     (\<lambda>w. map_future (json_parse w) (readFileWithCancel cancel x) w)"

definition readJSONFile :: "string \<Rightarrow> (js_error, jsval) future" where
  "readJSONFile = readJSONFileWithCancel NO_OP"

text \<open>
  \<^verbatim>\<open>try { glob(g, conf).catch(bad).then(good) } catch (e) { bad(e) }\<close>: an exception
  thrown by the call and a rejected promise both reach \<^verbatim>\<open>bad\<close>; after a rejection
  the later call of \<^verbatim>\<open>good\<close> finds the Future settled and does nothing.
\<close>

definition readDirWithConfigAndCancel ::
  "cancel \<Rightarrow> object \<Rightarrow> string \<Rightarrow> (js_error, jsval) future" where
  "readDirWithConfigAndCancel cancel conf g = (\<lambda>w.
     case glob w g conf of
       GlobThrows e \<Rightarrow> (Rejected e, 0, w)
     | GlobPromise (Inl e) \<Rightarrow> (Rejected e, latency w g, w)
     | GlobPromise (Inr paths) \<Rightarrow> (Resolved (JArr (map JStr paths)), latency w g, w))"

definition readDirWithConfig :: "object \<Rightarrow> string \<Rightarrow> (js_error, jsval) future" where
  "readDirWithConfig = readDirWithConfigAndCancel NO_OP"

definition readDir :: "string \<Rightarrow> (js_error, jsval) future" where
  "readDir = readDirWithConfig []"

definition writeFileWithConfigAndCancel ::
  "cancel \<Rightarrow> object \<Rightarrow> string \<Rightarrow> string \<Rightarrow> (js_error, jsval) future" where
  "writeFileWithConfigAndCancel cancel conf file content = (\<lambda>w.
     case fs_writeFile w file content conf of
       Inl e \<Rightarrow> (Rejected (SystemError e file), latency w file, w)
     | Inr w' \<Rightarrow> (Resolved (JStr content), latency w file, w'))"

definition writeFileWithConfig :: "object \<Rightarrow> string \<Rightarrow> string \<Rightarrow> (js_error, jsval) future" where
  "writeFileWithConfig = writeFileWithConfigAndCancel NO_OP"

definition writeFile :: "string \<Rightarrow> string \<Rightarrow> (js_error, jsval) future" where
  "writeFile = writeFileWithConfig [(''encoding'', JStr ''utf8'')]"

definition removeFileWithConfigAndCancel ::
  "cancel \<Rightarrow> object \<Rightarrow> string \<Rightarrow> (js_error, jsval) future" where
  "removeFileWithConfigAndCancel cancel options fd = (\<lambda>w.
     case fs_rm w fd options of
       Inl err \<Rightarrow> (Rejected (SystemError err fd), latency w fd, w)
     | Inr w' \<Rightarrow> (Resolved (JStr fd), latency w fd, w'))"

definition removeFileWithConfig :: "object \<Rightarrow> string \<Rightarrow> (js_error, jsval) future" where
  "removeFileWithConfig = removeFileWithConfigAndCancel NO_OP"

definition rm :: "string \<Rightarrow> (js_error, jsval) future" where
  "rm = removeFileWithConfig []"

definition removeFile :: "string \<Rightarrow> (js_error, jsval) future" where
  "removeFile = rm"

definition rimraf :: "string \<Rightarrow> (js_error, jsval) future" where
  "rimraf = removeFileWithConfig [(''force'', JBool True), (''recursive'', JBool True)]"

definition DEFAULT_REMOVAL_CONFIG :: object where
  "DEFAULT_REMOVAL_CONFIG =
     [(''force'', JBool False), (''maxRetries'', JNum 0), (''recursive'', JBool False),
      (''retryDelay'', JNum 100), (''parallel'', JNum 10)]"

definition mkdirWithCancel :: "cancel \<Rightarrow> object \<Rightarrow> string \<Rightarrow> (js_error, jsval) future" where
  "mkdirWithCancel cancel conf x = (\<lambda>w.
     case fs_mkdir w x conf of
       Inl err \<Rightarrow> (Rejected (SystemError err x), latency w x, w)
     | Inr w' \<Rightarrow> (Resolved (JStr x), latency w x, w'))"

definition mkdir :: "object \<Rightarrow> string \<Rightarrow> (js_error, jsval) future" where
  "mkdir = mkdirWithCancel NO_OP"

definition mkdirp :: "string \<Rightarrow> (js_error, jsval) future" where
  "mkdirp = mkdir [(''recursive'', JBool True)]"

text \<open>
  \<^verbatim>\<open>access(permissions, filePath)\<close>: without permissions in the model the check
  succeeds exactly when the path names something.
\<close>

datatype permission = F_OK | R_OK

definition access :: "permission \<Rightarrow> string \<Rightarrow> (js_error, jsval) future" where
  "access permissions filePath = (\<lambda>w.
     case fs_access w filePath of
       Some err \<Rightarrow> (Rejected (SystemError err filePath), latency w filePath, w)
     | None \<Rightarrow> (Resolved (JBool True), latency w filePath, w))"

definition exists :: "string \<Rightarrow> (js_error, jsval) future" where
  "exists = access F_OK"

definition readable :: "string \<Rightarrow> (js_error, jsval) future" where
  "readable = access R_OK"

definition writeFileWithAutoPath :: "string \<Rightarrow> string \<Rightarrow> (js_error, jsval) future" where
  "writeFileWithAutoPath filePath content =
     chain (\<lambda>_. writeFile filePath content)
       ((\<lambda>dir. chainRej (\<lambda>_. mkdirp dir) (exists dir)) (directoryOnly filePath))"

text \<open>
  \<^verbatim>\<open>findFile\<close> folds over the candidates with the default as the first accumulator.
  The default is any JavaScript value, a Future or not, so the accumulator is either
  a plain value or a Future; \<^verbatim>\<open>isFuture\<close> tells them apart.
\<close>

datatype ('d, 'm) dyn = Plain 'd | Fut 'm

fun isFuture :: "('d, 'm) dyn \<Rightarrow> bool" where
  "isFuture (Plain d) = False"
| "isFuture (Fut m) = True"

definition findFile ::
  "('c \<Rightarrow> ('e, 'a) future) \<Rightarrow> ('d, (bool, 'a) future) dyn \<Rightarrow> 'c list
     \<Rightarrow> ('d, (bool, 'a) future) dyn" where
  "findFile fn def x =
     foldl (\<lambda>a b. case a of Fut m \<Rightarrow> Fut (race m b) | Plain d \<Rightarrow> Fut b)
       def (map (\<lambda>c. mapRej F (fn c)) x)"

definition readAnyOr ::
  "('d, (bool, jsval) future) dyn \<Rightarrow> string \<Rightarrow> string list
     \<Rightarrow> ('d, (bool, jsval) future) dyn" where
  "readAnyOr def format x = findFile readFile def x"

definition readAny :: "string \<Rightarrow> string list \<Rightarrow> (jsval, (bool, jsval) future) dyn" where
  "readAny = readAnyOr (Plain JNull)"

definition requireAnyOr ::
  "('d, (bool, jsval) future) dyn \<Rightarrow> string list \<Rightarrow> ('d, (bool, jsval) future) dyn" where
  "requireAnyOr = findFile readable"


text \<open>
  Modelled from the spec: \<^verbatim>\<open>parallel(n)\<close> of fluture (spec 4.1 and 5) runs a list of
  computations with at most \<open>n\<close> in flight, collects the values in input order and
  fails on the first failure.  The scheduler below starts computations in list order
  while fewer than \<open>limit\<close> are in flight; otherwise the one in flight that finishes
  first completes, and its effect on the world takes place then.  \<open>peak\<close> records the
  largest number that were in flight together, \<open>finished\<close> the completions in the
  order they happened.  When a computation fails, the ones still in flight are
  cancelled and what they do afterwards is outside the model.
\<close>

record ('e, 'a) pstate =
  now :: nat
  pending :: "(nat \<times> ('e, 'a) future) list"
  running :: "(nat \<times> nat \<times> ('e, 'a) future) list"
  finished :: "(nat \<times> 'a) list"
  peak :: nat
  wld :: world

definition start_next :: "('e, 'a) pstate \<Rightarrow> ('e, 'a) pstate" where
  "start_next s =
     (case pending s of
        [] \<Rightarrow> s
      | (i, m) # rest \<Rightarrow>
          s\<lparr>pending := rest,
            running := running s @ [(now s + elapsed m (wld s), i, m)],
            peak := max (peak s) (Suc (length (running s)))\<rparr>)"

fun earliest :: "nat \<times> 'x \<Rightarrow> (nat \<times> 'x) list \<Rightarrow> nat \<times> 'x" where
  "earliest e [] = e"
| "earliest e (x # xs) = earliest (if fst x < fst e then x else e) xs"

function parallel_loop ::
  "nat \<Rightarrow> ('e, 'a) pstate \<Rightarrow> ('e, 'a list) outcome \<times> ('e, 'a) pstate" where
  "parallel_loop limit s =
     (if pending s \<noteq> [] \<and> length (running s) < limit
      then parallel_loop limit (start_next s)
      else (case running s of
              [] \<Rightarrow> (Resolved (map snd (sort_key fst (finished s))), s)
            | r # rs \<Rightarrow>
                (case earliest r rs of (t, i, m) \<Rightarrow>
                   (case m (wld s) of
                      (Resolved v, d, w') \<Rightarrow>
                        parallel_loop limit
                          (s\<lparr>now := t,
                             running := filter (\<lambda>(t', j, m'). j \<noteq> i) (running s),
                             finished := finished s @ [(i, v)],
                             wld := w'\<rparr>)
                    | (Rejected e, d, w') \<Rightarrow> (Rejected e, s\<lparr>now := t, wld := w'\<rparr>)
                    | (Crashed x, d, w') \<Rightarrow> (Crashed x, s\<lparr>now := t, wld := w'\<rparr>)))))"
  by pat_completeness auto
termination
proof (relation "measure (\<lambda>(limit, s). 2 * length (pending s) + length (running s))", goal_cases)
  case 1
  show ?case by simp
next
  case (2 limit s)
  then show ?case by (auto simp: start_next_def split: list.splits)
next
  case (3 limit s r rs t y i m)
  have mem: "earliest e xs \<in> set (e # xs)" for e :: "nat \<times> nat \<times> ('a, 'b) future" and xs
    by (induction xs arbitrary: e) auto
  have "(t, i, m) \<in> set (running s)"
    using 3 mem[of r rs] by (metis prod.collapse prod.inject)
  then have "length (filter (\<lambda>(t', j, m'). j \<noteq> i) (running s)) < length (running s)"
    by (intro length_filter_less[where x = "(t, i, m)"]) auto
  then show ?case by simp
qed

declare parallel_loop.simps [simp del]

definition parallel_run ::
  "nat \<Rightarrow> ('e, 'a) future list \<Rightarrow> world \<Rightarrow> ('e, 'a list) outcome \<times> ('e, 'a) pstate" where
  "parallel_run limit ms w =
     parallel_loop limit
       \<lparr>now = 0, pending = zip [0..<length ms] ms, running = [], finished = [],
        peak = 0, wld = w\<rparr>"

text \<open>
  \<^verbatim>\<open>parallel\<close> checks its first argument when it is called: anything but a positive
  integer is a \<^verbatim>\<open>TypeError\<close>, thrown before any Future exists.
\<close>

definition parallel ::
  "jsval \<Rightarrow> ('e, 'a) future list \<Rightarrow> js_error + ('e, 'a list) future" where
  "parallel mx ms =
     (case mx of
        JNum n \<Rightarrow>
          (if 0 < n
           then Inr (\<lambda>w. case parallel_run (nat n) ms w of (r, s) \<Rightarrow> (r, now s, wld s))
           else Inl (TypeError ''parallel() expects its first argument to be a positive Integer''))
      | _ \<Rightarrow> Inl (TypeError ''parallel() expects its first argument to be a positive Integer''))"

definition removeFilesWithConfigAndCancel ::
  "cancel \<Rightarrow> object \<Rightarrow> string list \<Rightarrow> js_error + (js_error, jsval list) future" where
  "removeFilesWithConfigAndCancel cancel conf list =
     parallel (propOr (JNum 10) ''parallel'' conf)
       (map (removeFileWithConfigAndCancel cancel (without [JStr ''parallel''] conf)) list)"

definition removeFilesWithConfig ::
  "object \<Rightarrow> string list \<Rightarrow> js_error + (js_error, jsval list) future" where
  "removeFilesWithConfig = removeFilesWithConfigAndCancel NO_OP"

definition removeFiles :: "string list \<Rightarrow> js_error + (js_error, jsval list) future" where
  "removeFiles = removeFilesWithConfig DEFAULT_REMOVAL_CONFIG"


section \<open>Example runtimes\<close>

text \<open>
  A runtime for the closed examples: the root directory holds three files, a call
  on \<^verbatim>\<open>missing.txt\<close> takes one time unit and every other call two, the JSON
  parser knows one document, and the glob package is one with the promise interface
  the source calls, on a pattern that matches nothing: it returns a promise
  fulfilled with the empty list and does not look for a \<^verbatim>\<open>sync\<close> option.
\<close>

definition example_parse :: "jsval \<Rightarrow> js_error + jsval" where
  "example_parse v =
     (if v = JStr ''{\"a\":1}'' then Inr (JObj [(''a'', JNum 1)])
      else Inl (SyntaxError ''Unexpected end of JSON input''))"

definition example_world :: world where
  "example_world =
     \<lparr>nodes = [[] \<mapsto> Dir, [''valid.txt''] \<mapsto> File ''hello'',
               [''bad.json''] \<mapsto> File ''{'', [''ok.json''] \<mapsto> File ''{\"a\":1}''],
      cwd = [],
      latency = (\<lambda>p. if p = ''missing.txt'' then 1 else 2),
      transcode = (\<lambda>enc s. s),
      json_parse = example_parse,
      glob_package = (\<lambda>g conf. GlobPromise (Inr []))\<rparr>"

text \<open>A path a file can be written to: it resolves, and not to a directory.\<close>

definition valid_path :: "world \<Rightarrow> string \<Rightarrow> bool" where
  "valid_path w p = (case locate w p of Inl e \<Rightarrow> False | Inr l \<Rightarrow> nodes w l \<noteq> Some Dir)"





text \<open>A file system that holds nothing but its root directory.\<close>

definition empty_world :: world where
  "empty_world =
     \<lparr>nodes = [[] \<mapsto> Dir], cwd = [], latency = (\<lambda>p. 1), transcode = (\<lambda>enc s. s),
      json_parse = example_parse, glob_package = (\<lambda>g conf. GlobPromise (Inr []))\<rparr>"







section \<open>Auxiliary facts\<close>

lemma last_index_from_absent: "c \<notin> set s \<Longrightarrow> last_index_from c s i found = found"
  by (induction s arbitrary: i found) auto


lemma directoryOnly_no_slash: "CHR ''/'' \<notin> set p \<Longrightarrow> directoryOnly p = butlast p"
proof -
  assume a: "CHR ''/'' \<notin> set p"
  have "nat (int (length p) - 1) = length p - 1" by arith
  with a show ?thesis
    by (simp add: directoryOnly_def lastIndexOf_def last_index_from_absent slice_def Let_def
        butlast_conv_take max_def)
qed




lemma split_on_absent: "c \<notin> set s \<Longrightarrow> split_on c s = [s]"
  by (induction s) auto


lemma walk_same_dirs:
  "walk w cur cs = Inr l \<Longrightarrow> (\<And>x. nodes w x = Some Dir \<Longrightarrow> nodes w' x = Some Dir)
   \<Longrightarrow> walk w' cur cs = Inr l"
  by (induction w cur cs rule: walk.induct) (auto split: option.splits node.splits if_splits)






lemma proper_step:
  "nodes w L = Some Dir \<Longrightarrow> name \<noteq> [] \<Longrightarrow> name \<noteq> ''.'' \<Longrightarrow> name \<noteq> ''..''
   \<Longrightarrow> walk w L [name] = Inr (L @ [name])"
  by simp


lemma writeFile_child:
  assumes "locate w p = Inr l" "nodes w l \<noteq> Some Dir"
  shows "writeFile p c w = (Resolved (JStr c), latency w p, w\<lparr>nodes := (nodes w)(l \<mapsto> File c)\<rparr>)"
  using assms
  by (auto simp: writeFile_def writeFileWithConfig_def writeFileWithConfigAndCancel_def
        fs_writeFile_def encoded_def split: option.splits node.splits)





















text \<open>How the two composite readers settle, in general.\<close>

lemma readJSONFile_settles:
  "settled (readJSONFile p) w =
     (case fs_readFile w p ''utf8'' of
        Inl e \<Rightarrow> Rejected (SystemError e p)
      | Inr s \<Rightarrow> (case json_parse w (JStr s) of Inl x \<Rightarrow> Crashed x | Inr v \<Rightarrow> Resolved v))"
  by (simp add: readJSONFile_def readJSONFileWithCancel_def map_future_def readFileWithCancel_def
      readFileWithFormatAndCancel_def settled_def split: sum.splits)

lemma findFile_pair:
  "findFile fn (Plain d) [a, b] = Fut (race (mapRej F (fn a)) (mapRej F (fn b)))"
  by (simp add: findFile_def)

lemma race_readFile_settles:
  "settled (race (mapRej F (readFile a)) (mapRej F (readFile b))) w =
     (if latency w a \<le> latency w b then settled (mapRej F (readFile a)) w
      else settled (mapRej F (readFile b)) w)"
  by (simp add: race_def mapRej_def F_def readFile_def readFileWithCancel_def
      readFileWithFormatAndCancel_def settled_def split: sum.splits)

lemmas ex_simps = example_world_def example_parse_def settled_def world_after_def
  readFile_def readFileWithCancel_def readFileWithFormatAndCancel_def fs_readFile_def
  locate_def start_dir_def decode_def


section \<open>Properties\<close>

text \<open>
  C1.  The claim: \<^verbatim>\<open>findFile(readFile, null, [validPath, missingPath])\<close> yields the
  contents of the readable candidate in either order of the list, because the first
  candidate whose probe succeeds wins.  The code maps each failure to the rejection
  \<^verbatim>\<open>false\<close> and races the candidates; a race is settled by the first candidate to
  settle, so when the probe of the missing path fails before the read of the valid
  path completes the result is the rejection \<^verbatim>\<open>false\<close>, in both orders, although
  \<^verbatim>\<open>valid.txt\<close> is readable.
\<close>

theorem findFile_rejects_when_missing_settles_first:
  "findFile readFile (Plain JNull) [''valid.txt'', ''missing.txt'']
     = Fut (race (mapRej F (readFile ''valid.txt'')) (mapRej F (readFile ''missing.txt'')))
   \<and> settled (race (mapRej F (readFile ''valid.txt'')) (mapRej F (readFile ''missing.txt'')))
         example_world = Rejected False
   \<and> findFile readFile (Plain JNull) [''missing.txt'', ''valid.txt'']
     = Fut (race (mapRej F (readFile ''missing.txt'')) (mapRej F (readFile ''valid.txt'')))
   \<and> settled (race (mapRej F (readFile ''missing.txt'')) (mapRej F (readFile ''valid.txt'')))
         example_world = Rejected False
   \<and> settled (readFile ''valid.txt'') example_world = Resolved (JStr ''hello'')"
  by (simp add: findFile_def race_def mapRej_def F_def ex_simps)

text \<open>
  C2.  The claim: the key \<^verbatim>\<open>parallel\<close> is removed from the configuration before it
  is forwarded to each removal.  The code calls \<^verbatim>\<open>without(['parallel'], conf)\<close>, which
  drops entries by value, not by key: the default configuration is forwarded
  unchanged, its \<^verbatim>\<open>parallel\<close> entry included.  (\<^verbatim>\<open>omit\<close> is the function that would
  drop the key.)
\<close>

theorem parallel_key_is_forwarded:
  "without [JStr ''parallel''] DEFAULT_REMOVAL_CONFIG = DEFAULT_REMOVAL_CONFIG
   \<and> map_of (without [JStr ''parallel''] DEFAULT_REMOVAL_CONFIG) ''parallel'' = Some (JNum 10)
   \<and> removeFilesWithConfigAndCancel cancel DEFAULT_REMOVAL_CONFIG list
       = parallel (JNum 10) (map (removeFileWithConfigAndCancel cancel DEFAULT_REMOVAL_CONFIG) list)
   \<and> omit [''parallel''] DEFAULT_REMOVAL_CONFIG
       = [(''force'', JBool False), (''maxRetries'', JNum 0), (''recursive'', JBool False),
          (''retryDelay'', JNum 100)]"
  by (simp add: without_def DEFAULT_REMOVAL_CONFIG_def removeFilesWithConfigAndCancel_def
      propOr_def omit_def)

text \<open>
  C3.  The claim: reading malformed JSON fails through the failure channel with the
  parser's error, and reading \<^verbatim>\<open>{"a":1}\<close> resolves with the mapping.  The code maps
  \<^verbatim>\<open>JSON.parse\<close> over the read, so the parser's exception escapes from the mapped
  function: the fork crashes with the parser's error and does not reject.  The
  well-formed document resolves as claimed.
\<close>

theorem readJSONFile_malformed_crashes:
  "settled (readJSONFile ''bad.json'') example_world
     = Crashed (SyntaxError ''Unexpected end of JSON input'')
   \<and> settled (readJSONFile ''ok.json'') example_world = Resolved (JObj [(''a'', JNum 1)])"
  by (simp add: readJSONFile_def readJSONFileWithCancel_def map_future_def ex_simps)




text \<open>
  C5.  For every path that can be written (it resolves, and not to a directory) and
  every content, \<^verbatim>\<open>writeFile\<close> resolves with the content itself, and \<^verbatim>\<open>readFile\<close>
  of the same path afterwards resolves with that content.
\<close>

theorem writeFile_then_readFile:
  assumes "valid_path w p"
  shows "settled (writeFile p c) w = Resolved (JStr c)
    \<and> settled (readFile p) (world_after (writeFile p c) w) = Resolved (JStr c)
    \<and> settled (chain (\<lambda>_. readFile p) (writeFile p c)) w = Resolved (JStr c)"
proof -
  from assms obtain l where l: "locate w p = Inr l" and nd: "nodes w l \<noteq> Some Dir"
    by (auto simp: valid_path_def split: sum.splits)
  define w' where "w' = w\<lparr>nodes := (nodes w)(l \<mapsto> File c)\<rparr>"
  have wr: "writeFile p c w = (Resolved (JStr c), latency w p, w')"
    using l nd
    by (auto simp: writeFile_def writeFileWithConfig_def writeFileWithConfigAndCancel_def
        fs_writeFile_def encoded_def w'_def split: option.splits node.splits)
  have pne: "p \<noteq> []" using l by (auto simp: locate_def split: if_splits)
  have "walk w (start_dir w p) (split_on CHR ''/'' p) = Inr l"
    using l pne by (simp add: locate_def)
  then have "walk w' (start_dir w p) (split_on CHR ''/'' p) = Inr l"
    by (rule walk_same_dirs) (use nd in \<open>auto simp: w'_def\<close>)
  moreover have "start_dir w' p = start_dir w p"
    by (simp add: start_dir_def w'_def)
  ultimately have l': "locate w' p = Inr l"
    using pne by (simp add: locate_def)
  have rd: "readFile p w' = (Resolved (JStr c), latency w' p, w')"
    using l' by (simp add: readFile_def readFileWithCancel_def readFileWithFormatAndCancel_def
        fs_readFile_def decode_def w'_def)
  show ?thesis using wr rd by (simp add: settled_def world_after_def chain_def)
qed

theorem writeFile_then_readFile_witness:
  "valid_path example_world ''new.txt''
   \<and> settled (writeFile ''new.txt'' ''data'') example_world = Resolved (JStr ''data'')
   \<and> settled (readFile ''new.txt'') (world_after (writeFile ''new.txt'' ''data'') example_world)
       = Resolved (JStr ''data'')"
proof -
  have v: "valid_path example_world ''new.txt''"
    by (simp add: valid_path_def locate_def start_dir_def example_world_def)
  show ?thesis
    using v writeFile_then_readFile [OF v, of "''data''"] by simp
qed




text \<open>
  C7.  \<^verbatim>\<open>findFile\<close> on an empty candidate list is the default itself, for every
  probe and default: for a default that is not a Future the result is that plain
  value, so nothing is forked and no call reaches the file system.
\<close>

theorem findFile_empty:
  "findFile fn def [] = def \<and> findFile readFile (Plain JNull) [] = Plain JNull
   \<and> \<not> isFuture (findFile fn (Plain d) [])"
  by (simp add: findFile_def)

text \<open>
  C8.  \<^verbatim>\<open>readDirWithConfig({sync: true}, pattern)\<close> is not rejected by the library:
  the wrapper never reads \<^verbatim>\<open>sync\<close> and makes no error of its own.  It is rejected
  exactly when the glob call throws or its promise is rejected, with that error; when
  the promise is fulfilled, as in the example runtime, it resolves with the matches.
\<close>

theorem readDirWithConfig_sync_resolves:
  "settled (readDirWithConfig [(''sync'', JBool True)] ''@@#()@#()@'') example_world
     = Resolved (JArr [])
   \<and> settled (readDirWithConfig [(''sync'', JBool True)] g)
         (w\<lparr>glob_package := (\<lambda>g conf. GlobPromise (Inr ps))\<rparr>)
     = Resolved (JArr (map JStr ps))
   \<and> (settled (readDirWithConfigAndCancel cancel conf g) w = Rejected e
        \<longleftrightarrow> glob w g conf = GlobThrows e \<or> glob w g conf = GlobPromise (Inl e))"
  by (auto simp: readDirWithConfig_def readDirWithConfigAndCancel_def glob_def settled_def
        example_world_def split: glob_call.splits sum.splits)

text \<open>
  C9.  \<^verbatim>\<open>readAnyOr\<close> ignores its format argument: for every default and candidate
  list, any two formats give the same result, which is \<^verbatim>\<open>findFile\<close> with the UTF-8
  \<^verbatim>\<open>readFile\<close> probe.
\<close>

theorem readAnyOr_ignores_format:
  "readAnyOr def f1 x = readAnyOr def f2 x \<and> readAnyOr def f1 x = findFile readFile def x
   \<and> readFile = readFileWithFormatAndCancel NO_OP ''utf8''"
  by (simp add: readAnyOr_def readFile_def readFileWithCancel_def)


text \<open>
  C10 (counterexample).  The remainder of a name without \<^verbatim>\<open>/\<close> can be the empty
  string or a current-directory marker: for a name of one character
  \<^verbatim>\<open>directoryOnly\<close> is the empty string, the existence check of the empty path and
  its creation both fail, and \<^verbatim>\<open>writeFileWithAutoPath\<close> is rejected with nothing
  written; for \<^verbatim>\<open>.x\<close> the remainder is \<^verbatim>\<open>.\<close>.
\<close>

theorem directoryOnly_short_names:
  "directoryOnly ''f'' = []
   \<and> settled (writeFileWithAutoPath ''f'' ''c'') empty_world = Rejected (SystemError ENOENT [])
   \<and> nodes (world_after (writeFileWithAutoPath ''f'' ''c'') empty_world) [''f''] = None
   \<and> world_after (writeFileWithAutoPath ''f'' ''c'') empty_world = empty_world
   \<and> directoryOnly ''.x'' = ''.''"
  by (simp add: directoryOnly_def lastIndexOf_def slice_def Let_def writeFileWithAutoPath_def
      chain_def chainRej_def exists_def access_def fs_access_def locate_def mkdirp_def mkdir_def
      mkdirWithCancel_def fs_mkdir_def settled_def world_after_def empty_world_def)

text \<open>
  C10 (amended).  For a path without \<^verbatim>\<open>/\<close>, \<^verbatim>\<open>directoryOnly\<close> is the path without its
  last character: the empty string exactly when the path has at most one character,
  the marker \<^verbatim>\<open>.\<close> exactly when it is a dot and one more character.
  \<^verbatim>\<open>writeFileWithAutoPath\<close> is the existence check of that remainder, recovered on
  failure by its recursive creation, followed by the write.  Where the remainder is
  a proper name and the working directory exists: if nothing has that name, the check
  is rejected, the directory of that name is created, the only change before the
  write, and the file is then written beside it unless the path names a directory; if
  something has that name, a file or a directory, the check resolves, nothing is
  created, and the write is the only change.  Only \<^verbatim>\<open>/\<close> separates: the first
  path of the witness has a backslash.
\<close>

theorem directoryOnly_bare_filename:
  assumes "CHR ''/'' \<notin> set p"
  shows "directoryOnly p = butlast p
    \<and> (directoryOnly p = [] \<longleftrightarrow> length p \<le> 1)
    \<and> (directoryOnly p = ''.'' \<longleftrightarrow> length p = 2 \<and> hd p = CHR ''.'')
    \<and> writeFileWithAutoPath p c
        = chain (\<lambda>_. writeFile p c) (chainRej (\<lambda>_. mkdirp (butlast p)) (exists (butlast p)))
    \<and> (nodes w (cwd w) = Some Dir \<and> butlast p \<noteq> [] \<and> butlast p \<noteq> ''.'' \<and> butlast p \<noteq> ''..''
       \<longrightarrow>
         (nodes w (cwd w @ [butlast p]) = None
          \<longrightarrow> settled (exists (butlast p)) w = Rejected (SystemError ENOENT (butlast p))
              \<and> world_after (chainRej (\<lambda>_. mkdirp (butlast p)) (exists (butlast p))) w
                  = w\<lparr>nodes := (nodes w)(cwd w @ [butlast p] \<mapsto> Dir)\<rparr>
              \<and> nodes (world_after (writeFileWithAutoPath p c) w) (cwd w @ [butlast p]) = Some Dir
              \<and> (nodes w (cwd w @ [p]) \<noteq> Some Dir
                   \<longrightarrow> settled (writeFileWithAutoPath p c) w = Resolved (JStr c)
                       \<and> world_after (writeFileWithAutoPath p c) w
                           = w\<lparr>nodes := (nodes w)(cwd w @ [butlast p] \<mapsto> Dir,
                                                    cwd w @ [p] \<mapsto> File c)\<rparr>))
       \<and> (nodes w (cwd w @ [butlast p]) \<noteq> None
          \<longrightarrow> settled (exists (butlast p)) w = Resolved (JBool True)
              \<and> world_after (chainRej (\<lambda>_. mkdirp (butlast p)) (exists (butlast p))) w = w
              \<and> (nodes w (cwd w @ [p]) \<noteq> Some Dir
                   \<longrightarrow> settled (writeFileWithAutoPath p c) w = Resolved (JStr c)
                       \<and> world_after (writeFileWithAutoPath p c) w
                           = w\<lparr>nodes := (nodes w)(cwd w @ [p] \<mapsto> File c)\<rparr>)))"
proof -
  let ?q = "butlast p"
  let ?ens = "chainRej (\<lambda>_. mkdirp ?q) (exists ?q)"
  have dO: "directoryOnly p = ?q" using assms by (rule directoryOnly_no_slash)
  have emp: "directoryOnly p = [] \<longleftrightarrow> length p \<le> 1"
    unfolding dO by (cases p rule: rev_cases) auto
  have dot: "directoryOnly p = ''.'' \<longleftrightarrow> length p = 2 \<and> hd p = CHR ''.''"
    unfolding dO by (cases p rule: rev_cases) (auto simp: length_Suc_conv)
  have unfold: "writeFileWithAutoPath p c = chain (\<lambda>_. writeFile p c) ?ens"
    by (simp add: writeFileWithAutoPath_def dO)
  have main: "(nodes w (cwd w @ [?q]) = None
          \<longrightarrow> settled (exists ?q) w = Rejected (SystemError ENOENT ?q)
              \<and> world_after ?ens w = w\<lparr>nodes := (nodes w)(cwd w @ [?q] \<mapsto> Dir)\<rparr>
              \<and> nodes (world_after (writeFileWithAutoPath p c) w) (cwd w @ [?q]) = Some Dir
              \<and> (nodes w (cwd w @ [p]) \<noteq> Some Dir
                   \<longrightarrow> settled (writeFileWithAutoPath p c) w = Resolved (JStr c)
                       \<and> world_after (writeFileWithAutoPath p c) w
                           = w\<lparr>nodes := (nodes w)(cwd w @ [?q] \<mapsto> Dir, cwd w @ [p] \<mapsto> File c)\<rparr>))
       \<and> (nodes w (cwd w @ [?q]) \<noteq> None
          \<longrightarrow> settled (exists ?q) w = Resolved (JBool True)
              \<and> world_after ?ens w = w
              \<and> (nodes w (cwd w @ [p]) \<noteq> Some Dir
                   \<longrightarrow> settled (writeFileWithAutoPath p c) w = Resolved (JStr c)
                       \<and> world_after (writeFileWithAutoPath p c) w
                           = w\<lparr>nodes := (nodes w)(cwd w @ [p] \<mapsto> File c)\<rparr>))"
    if cw: "nodes w (cwd w) = Some Dir" and q: "?q \<noteq> []" "?q \<noteq> ''.''" "?q \<noteq> ''..''"
  proof -
    have qs: "CHR ''/'' \<notin> set ?q" using assms by (meson in_set_butlastD)
    have sq: "split_on CHR ''/'' ?q = [?q]" using qs by (rule split_on_absent)
    have hq: "hd ?q \<noteq> CHR ''/''" using qs q(1) by (metis list.set_sel(1))
    have stq: "start_dir w ?q = cwd w" using hq by (simp add: start_dir_def)
    have pne: "p \<noteq> []" using q(1) by auto
    have pq: "p \<noteq> ?q" using pne by (metis append_butlast_last_id append_self_conv list.distinct(1))
    have ps: "split_on CHR ''/'' p = [p]" using assms by (rule split_on_absent)
    have hp: "hd p \<noteq> CHR ''/''" using assms pne by (metis list.set_sel(1))
    have p1: "p \<noteq> ''.''" using q(1) by auto
    have p2: "p \<noteq> ''..''" using q(2) by auto
    have absent: ?thesis if ab: "nodes w (cwd w @ [?q]) = None"
    proof -
      define w1 where "w1 = w\<lparr>nodes := (nodes w)(cwd w @ [?q] \<mapsto> Dir)\<rparr>"
      have ex: "exists ?q w = (Rejected (SystemError ENOENT ?q), latency w ?q, w)"
        using q cw ab by (simp add: exists_def access_def fs_access_def locate_def stq sq)
      have mk: "mkdirp ?q w = (Resolved (JStr ?q), latency w ?q, w1)"
        using q cw ab
        by (simp add: mkdirp_def mkdir_def mkdirWithCancel_def fs_mkdir_def truthy_def stq sq w1_def)
      have ens: "?ens w = (Resolved (JStr ?q), latency w ?q + latency w ?q, w1)"
        using ex mk by (simp add: chainRej_def)
      have stp: "start_dir w1 p = cwd w" using hp by (simp add: start_dir_def w1_def)
      have cw1: "nodes w1 (cwd w) = Some Dir" using cw by (simp add: w1_def)
      have q1: "nodes w1 (cwd w @ [?q]) = Some Dir" by (simp add: w1_def)
      have same: "nodes w1 (cwd w @ [p]) = nodes w (cwd w @ [p])" using pq by (simp add: w1_def)
      have loc: "locate w1 p = Inr (cwd w @ [p])"
        using pne p1 p2 cw1 by (simp add: locate_def stp ps)
      have run: "writeFileWithAutoPath p c w
          = (case writeFile p c w1 of (r, t, w2) \<Rightarrow> (r, latency w ?q + latency w ?q + t, w2))"
        using ens by (simp add: unfold chain_def)
      have a1: "settled (exists ?q) w = Rejected (SystemError ENOENT ?q)"
        using ex by (simp add: settled_def)
      have a2: "world_after ?ens w = w\<lparr>nodes := (nodes w)(cwd w @ [?q] \<mapsto> Dir)\<rparr>"
        using ens by (simp add: world_after_def w1_def)
      have a34: "nodes (world_after (writeFileWithAutoPath p c) w) (cwd w @ [?q]) = Some Dir
              \<and> (nodes w (cwd w @ [p]) \<noteq> Some Dir
                   \<longrightarrow> settled (writeFileWithAutoPath p c) w = Resolved (JStr c)
                       \<and> world_after (writeFileWithAutoPath p c) w
                           = w\<lparr>nodes := (nodes w)(cwd w @ [?q] \<mapsto> Dir, cwd w @ [p] \<mapsto> File c)\<rparr>)"
      proof (cases "nodes w1 (cwd w @ [p]) = Some Dir")
        case True
        then have "writeFile p c w1 = (Rejected (SystemError EISDIR p), latency w1 p, w1)"
          using loc
          by (simp add: writeFile_def writeFileWithConfig_def writeFileWithConfigAndCancel_def
              fs_writeFile_def)
        then show ?thesis using q1 True same by (simp add: run world_after_def)
      next
        case False
        have "writeFile p c w1
            = (Resolved (JStr c), latency w1 p, w1\<lparr>nodes := (nodes w1)(cwd w @ [p] \<mapsto> File c)\<rparr>)"
          using loc False by (rule writeFile_child)
        then show ?thesis using q1 pq by (simp add: run world_after_def settled_def w1_def)
      qed
      show ?thesis using ab a1 a2 a34 by simp
    qed
    have present: ?thesis if pr: "nodes w (cwd w @ [?q]) \<noteq> None"
    proof -
      have ex: "exists ?q w = (Resolved (JBool True), latency w ?q, w)"
        using q cw pr by (auto simp: exists_def access_def fs_access_def locate_def stq sq)
      have ens: "?ens w = (Resolved (JBool True), latency w ?q, w)"
        using ex by (simp add: chainRej_def)
      have stp: "start_dir w p = cwd w" using hp by (simp add: start_dir_def)
      have loc: "locate w p = Inr (cwd w @ [p])"
        using pne p1 p2 cw by (simp add: locate_def stp ps)
      have run: "writeFileWithAutoPath p c w
          = (case writeFile p c w of (r, t, w2) \<Rightarrow> (r, latency w ?q + t, w2))"
        using ens by (simp add: unfold chain_def)
      have b1: "settled (exists ?q) w = Resolved (JBool True)" using ex by (simp add: settled_def)
      have b2: "world_after ?ens w = w" using ens by (simp add: world_after_def)
      have b3: "settled (writeFileWithAutoPath p c) w = Resolved (JStr c)
                       \<and> world_after (writeFileWithAutoPath p c) w
                           = w\<lparr>nodes := (nodes w)(cwd w @ [p] \<mapsto> File c)\<rparr>"
        if nd: "nodes w (cwd w @ [p]) \<noteq> Some Dir"
      proof -
        have "writeFile p c w
            = (Resolved (JStr c), latency w p, w\<lparr>nodes := (nodes w)(cwd w @ [p] \<mapsto> File c)\<rparr>)"
          using loc nd by (rule writeFile_child)
        then show ?thesis by (simp add: run world_after_def settled_def)
      qed
      show ?thesis using pr b1 b2 b3 by simp
    qed
    show ?thesis using absent present by blast
  qed
  show ?thesis using dO emp dot unfold main by blast
qed

theorem directoryOnly_bare_filename_witness:
  "directoryOnly (''dir'' @ [CHR 0x5C] @ ''file'') = ''dir'' @ [CHR 0x5C] @ ''fil''
   \<and> nodes empty_world [''dir'' @ [CHR 0x5C] @ ''fil''] = None
   \<and> settled (exists (''dir'' @ [CHR 0x5C] @ ''fil'')) empty_world
        = Rejected (SystemError ENOENT (''dir'' @ [CHR 0x5C] @ ''fil''))
   \<and> nodes (world_after (writeFileWithAutoPath (''dir'' @ [CHR 0x5C] @ ''file'') ''c'') empty_world)
        [''dir'' @ [CHR 0x5C] @ ''fil''] = Some Dir
   \<and> settled (writeFileWithAutoPath (''dir'' @ [CHR 0x5C] @ ''file'') ''c'') empty_world
        = Resolved (JStr ''c'')
   \<and> nodes (world_after (writeFileWithAutoPath (''dir'' @ [CHR 0x5C] @ ''file'') ''c'') empty_world)
        [''dir'' @ [CHR 0x5C] @ ''file''] = Some (File ''c'')
   \<and> nodes example_world [''valid.txt''] = Some (File ''hello'')
   \<and> settled (exists ''valid.txt'') example_world = Resolved (JBool True)
   \<and> settled (writeFileWithAutoPath ''valid.txtx'' ''c'') example_world = Resolved (JStr ''c'')
   \<and> nodes (world_after (writeFileWithAutoPath ''valid.txtx'' ''c'') example_world)
        [''valid.txt''] = Some (File ''hello'')
   \<and> nodes (world_after (writeFileWithAutoPath ''valid.txtx'' ''c'') example_world)
        [''valid.txtx''] = Some (File ''c'')"
proof -
  let ?p = "''dir'' @ [CHR 0x5C] @ ''file''"
  let ?q = "''dir'' @ [CHR 0x5C] @ ''fil''"
  have a: "CHR ''/'' \<notin> set ?p" by simp
  note t = directoryOnly_bare_filename [OF a, where w = empty_world and c = "''c''"]
  have 1: "directoryOnly ?p = ?q" using conjunct1 [OF t] by simp
  note t5 = conjunct2 [OF conjunct2 [OF conjunct2 [OF conjunct2 [OF t]]]]
  have 2: "settled (exists ?q) empty_world = Rejected (SystemError ENOENT ?q)
      \<and> nodes (world_after (writeFileWithAutoPath ?p ''c'') empty_world) [?q] = Some Dir
      \<and> settled (writeFileWithAutoPath ?p ''c'') empty_world = Resolved (JStr ''c'')
      \<and> nodes (world_after (writeFileWithAutoPath ?p ''c'') empty_world) [?p] = Some (File ''c'')"
    using t5 by (simp add: empty_world_def)
  have b: "CHR ''/'' \<notin> set ''valid.txtx''" by simp
  note u = directoryOnly_bare_filename [OF b, where w = example_world and c = "''c''"]
  note u5 = conjunct2 [OF conjunct2 [OF conjunct2 [OF conjunct2 [OF u]]]]
  have 3: "settled (exists ''valid.txt'') example_world = Resolved (JBool True)
      \<and> settled (writeFileWithAutoPath ''valid.txtx'' ''c'') example_world = Resolved (JStr ''c'')
      \<and> nodes (world_after (writeFileWithAutoPath ''valid.txtx'' ''c'') example_world)
           [''valid.txt''] = Some (File ''hello'')
      \<and> nodes (world_after (writeFileWithAutoPath ''valid.txtx'' ''c'') example_world)
           [''valid.txtx''] = Some (File ''c'')"
    using u5 by (simp add: example_world_def)
  show ?thesis using 1 2 3 by (simp add: empty_world_def example_world_def)
qed

end
